theory Spec2Isabelle
  imports Main
begin

section \<open>Data model\<close>

text \<open>
  Go's \<open>int\<close> is modelled by \<open>int\<close>: the integers of the code are dimension sizes,
  strides and indices into buffers held in memory, far from the 64-bit limits.
  A run-time panic of the Go code is a value \<open>Inl p\<close> of the result.
\<close>

datatype panic = IndexOutOfRange | NilTypeAssertion | TypeAssertion | SanityPanic

datatype error = noopError | NYI | emptyTensor | shapeMismatch | dimMismatch

text \<open>
  The two element types the inspection code asks for, \<open>Bool\<close> and \<open>Int\<close>
  (\<open>Int\<close> is taken in HOL, hence the suffix).
\<close>

datatype Dtype = Bool_t | Int_t

text \<open>The dynamic values a \<open>maskedReduceFn\<close> of the repository returns: a bool or an int.\<close>

datatype scalar = B bool | I int

text \<open>\<open>rs\<close> is the ranged slice built by \<open>makeRS\<close>; a \<open>Slice\<close> is \<open>nil\<close> or an \<open>rs\<close>.\<close>

datatype rs = RS (rs_start: int) (rs_end: int) (rs_step: int)

type_synonym Slice = "rs option"

definition makeRS :: "int \<Rightarrow> int \<Rightarrow> rs" where
  "makeRS s e = RS s e 1"

text \<open>
  The access pattern. \<open>shape\<close> is \<open>None\<close> for Go's \<open>nil\<close> slice, which \<open>sanity\<close>
  tells apart from an empty shape.
\<close>

record AP =
  shape :: "int list option"
  strides :: "int list"
  maskStrides :: "int list"

text \<open>
  The fields of \<open>Dense\<close> in dense.go. \<open>v\<close> is the underlying slice (\<open>None\<close> when
  \<open>data == nil\<close>), \<open>hdr.Len\<close> is its length; \<open>viewOf\<close> names the tensor this one is
  a view of. The tensors of the model carry an access pattern and a slice header.
\<close>

record Dense =
  ap :: AP
  v :: "scalar list option"
  dt :: Dtype
  old :: "AP option"
  transposeWith :: "int list"
  viewOf :: "nat option"
  mask :: "bool list"

text \<open>What a function returning \<open>interface{}\<close> hands back here: a scalar or a tensor.\<close>

datatype iface = Sc scalar | Tn Dense

subsection \<open>Access-pattern helpers\<close>

definition shp :: "Dense \<Rightarrow> int list" where
  "shp t = (case shape (ap t) of None \<Rightarrow> [] | Some s \<Rightarrow> s)"

definition hdr_Len :: "Dense \<Rightarrow> int" where
  "hdr_Len t = (case v t of None \<Rightarrow> 0 | Some xs \<Rightarrow> int (length xs))"

text \<open>
  Modelled from the spec: \<open>AP.Dims\<close>, \<open>AP.Size\<close> and \<open>Shape.TotalSize\<close> are not in the
  sources at hand. The rank is the number of dimensions and the size is the
  element count from the shape, the product of the dimension sizes.
\<close>

definition Dims :: "Dense \<Rightarrow> int" where
  "Dims t = int (length (shp t))"

definition TotalSize :: "int list \<Rightarrow> int" where
  "TotalSize s = prod_list s"

definition Size :: "Dense \<Rightarrow> int" where
  "Size t = TotalSize (shp t)"

text \<open>
  Modelled from the spec: \<open>Shape.IsScalar\<close> is not in the sources at hand. In dense.go,
  \<open>fix\<close> gives a one-element buffer its scalar shape by \<open>t.SetShape()\<close>, with no dimension:
  the scalar shape is the empty one.
\<close>

definition IsScalar :: "Dense \<Rightarrow> bool" where
  "IsScalar t = (shp t = [])"

text \<open>
  Modelled from the spec: \<open>Shape.IsVector\<close> is not in the sources at hand. The spec
  speaks of rank-1 tensors. The repository's test runs its "vector case" on
  \<open>WithShape(1, 12)\<close> and asserts that \<open>MaskedAny(0)\<close> is a \<open>bool\<close> and that
  \<open>MaskedCount(0)\<close> equals the int \<open>6\<close>: a row vector \<open>(1, n)\<close> is a vector too, and the
  column vector \<open>(n, 1)\<close> is taken with it.
\<close>

definition IsVector :: "Dense \<Rightarrow> bool" where
  "IsVector t =
     (case shp t of
        [n] \<Rightarrow> True
      | [a, b] \<Rightarrow> (a = 1 \<and> b > 1) \<or> (b = 1 \<and> a > 1)
      | _ \<Rightarrow> False)"

text \<open>
  Modelled from the spec: \<open>IsMasked\<close> and \<open>MaskSize\<close> are not in the sources at hand.
  A tensor is masked iff a mask buffer is present and has length at least 1.
\<close>

definition MaskSize :: "Dense \<Rightarrow> int" where
  "MaskSize t = int (length (mask t))"

definition IsMasked :: "Dense \<Rightarrow> bool" where
  "IsMasked t = (length (mask t) \<ge> 1)"

text \<open>The canonical row-major strides of a shape.\<close>

fun calcStrides :: "int list \<Rightarrow> int list" where
  "calcStrides [] = []"
| "calcStrides (n # ns) = prod_list ns # calcStrides ns"

text \<open>
  Modelled from the spec: \<open>AP.SetShape\<close> is not in the sources at hand. It reassigns the
  shape and the strides to the canonical row-major layout of the new shape.
\<close>

definition SetShape :: "int list \<Rightarrow> AP \<Rightarrow> AP" where
  "SetShape s a = a\<lparr>shape := Some s, strides := calcStrides s\<rparr>"

section \<open>dense.go\<close>

definition setShape :: "int list \<Rightarrow> Dense \<Rightarrow> Dense" where
  "setShape s t = t\<lparr>ap := SetShape s (ap t)\<rparr>"

text \<open>\<open>sanity\<close>: \<open>None\<close> is Go's \<open>nil\<close> error.\<close>

definition sanity :: "Dense \<Rightarrow> error option" where
  "sanity t =
     (if shape (ap t) = None \<and> v t = None then Some emptyTensor
      else let size = hdr_Len t; expected = Size t in
        if viewOf t = None \<and> size \<noteq> expected \<and> \<not> IsScalar t then Some shapeMismatch
        else None)"

definition reshape :: "int list \<Rightarrow> Dense \<Rightarrow> error option \<times> Dense" where
  "reshape dims t = (let t' = setShape dims t in (sanity t', t'))"

text \<open>
  \<open>Reshape\<close> returns the error and the tensor as the call leaves it. \<open>Transpose\<close> is not
  in the sources at hand: it is the parameter \<open>Transpose\<close>, the in-place
  materialisation of a pending transposition.
\<close>

definition Reshape :: "(Dense \<Rightarrow> Dense) \<Rightarrow> int list \<Rightarrow> Dense \<Rightarrow> error option \<times> Dense" where
  "Reshape Transpose dims t =
     (if viewOf t \<noteq> None then (Some NYI, t)
      else let t1 = (if old t \<noteq> None then Transpose t else t)
           in reshape dims t1)"

subsection \<open>Construction\<close>

definition zero :: "Dtype \<Rightarrow> scalar" where
  "zero d = (case d of Bool_t \<Rightarrow> B False | Int_t \<Rightarrow> I 0)"

text \<open>
  Modelled from the spec: \<open>makeArray\<close> and \<open>borrowDense\<close> (the allocator and the tensor
  pool) are not in the sources at hand. The allocator supplies a new tensor of the
  element type with a zeroed buffer of the size asked for, no mask, and it is no view.
\<close>

definition makeArray :: "int \<Rightarrow> Dense \<Rightarrow> Dense" where
  "makeArray sz t = t\<lparr>v := Some (replicate (nat sz) (zero (dt t)))\<rparr>"

definition borrowDense :: "Dtype \<Rightarrow> int \<Rightarrow> Dense" where
  "borrowDense d sz =
     \<lparr>ap = \<lparr>shape = None, strides = [], maskStrides = []\<rparr>,
      v = Some (replicate (nat sz) (zero d)), dt = d, old = None,
      transposeWith = [], viewOf = None, mask = []\<rparr>"

definition makeMask :: "int \<Rightarrow> Dense \<Rightarrow> Dense" where
  "makeMask sz t =
     (if sz < 1 \<or> int (length (mask t)) = sz then t
      else t\<lparr>mask := replicate (nat sz) False\<rparr>)"

text \<open>
  \<open>fix\<close> (here \<open>fix_dense\<close>, the name being an Isar keyword) and the size it
  computes for the mask, from the first positive mask stride.
\<close>

fun fixMaskSize :: "int list \<Rightarrow> int list \<Rightarrow> int" where
  "fixMaskSize (s # ss) (n # ns) = (if s > 0 then n * s else fixMaskSize ss ns)"
| "fixMaskSize _ _ = 0"

definition fix_dense :: "Dense \<Rightarrow> Dense" where
  "fix_dense t =
     (let t1 =
        (if IsScalar t \<and> v t = None then makeArray 1 t
         else if shape (ap t) = None \<and> v t \<noteq> None then
           (let size = hdr_Len t
            in if size = 1 then t\<lparr>ap := SetShape [] (ap t)\<rparr>
               else t\<lparr>ap := SetShape [size] (ap t)\<rparr>)
         else if v t = None then makeArray (Size t) t
         else t)
      in if IsMasked t1 then makeMask (fixMaskSize (maskStrides (ap t1)) (shp t1)) t1 else t1)"

definition recycledDenseNoFix :: "Dtype \<Rightarrow> int list \<Rightarrow> Dense" where
  "recycledDenseNoFix d s =
     (let size = TotalSize s;
          size = (if s = [] then 1 else size)
      in setShape s (borrowDense d size))"

definition recycledDense :: "Dtype \<Rightarrow> int list \<Rightarrow> panic + Dense" where
  "recycledDense d s =
     (let retVal = fix_dense (recycledDenseNoFix d s)
      in case sanity retVal of Some err \<Rightarrow> Inl SanityPanic | None \<Rightarrow> Inr retVal)"

definition NewDense :: "Dtype \<Rightarrow> int list \<Rightarrow> panic + Dense" where
  "NewDense d s = recycledDense d s"

section \<open>Slicing, coordinates and element access\<close>

text \<open>
  Modelled from the spec: \<open>Dense.Slice\<close> and \<open>AP.S\<close> are not in the sources at hand.
  The number of ranges is 0 or the dimensionality. An absent range is the whole
  dimension. A range \<open>[start, end)\<close> shrinks its dimension to the range's length and
  advances the base offset by \<open>start * stride\<close>; a range of one index at most (the
  probe \<open>makeRS(0, 0)\<close> of \<open>MaskedReduce\<close>, the \<open>[c, c+1)\<close> of its loop) fixes the
  dimension to the single index \<open>start\<close> and the dimension leaves the view's shape,
  which is how the reduction axis is removed and how the sub-tensor is 1-D. The
  strides of the remaining dimensions are unchanged. The view shares the buffers:
  it sees the part of the data and of the mask that its elements address, and it
  is marked as a view of the source.
\<close>

fun sliceDim :: "Slice \<Rightarrow> int \<Rightarrow> int \<times> int \<times> bool" where
  "sliceDim None sz = (0, sz, True)"
| "sliceDim (Some r) sz =
     (if rs_end r - rs_start r \<le> 1 then (rs_start r, 1, False)
      else (rs_start r, rs_end r - rs_start r, True))"

text \<open>Base offset and addressed span of a view, from (start, length) and stride per dimension.\<close>

fun viewOffset :: "(int \<times> int \<times> bool) list \<Rightarrow> int list \<Rightarrow> int" where
  "viewOffset ((s, l, k) # ds) (st # sts) = s * st + viewOffset ds sts"
| "viewOffset _ _ = 0"

fun viewReach :: "(int \<times> int \<times> bool) list \<Rightarrow> int list \<Rightarrow> int" where
  "viewReach ((s, l, k) # ds) (st # sts) = (l - 1) * st + viewReach ds sts"
| "viewReach _ _ = 0"

definition viewSpan :: "(int \<times> int \<times> bool) list \<Rightarrow> int list \<Rightarrow> int" where
  "viewSpan ds sts = (if \<exists>d \<in> set ds. fst (snd d) < 1 then 0 else 1 + viewReach ds sts)"

fun kept :: "(int \<times> int \<times> bool) list \<Rightarrow> 'a list \<Rightarrow> 'a list" where
  "kept ((s, l, k) # ds) (x # xs) = (if k then x # kept ds xs else kept ds xs)"
| "kept _ _ = []"

definition window :: "int \<Rightarrow> int \<Rightarrow> 'a list \<Rightarrow> 'a list" where
  "window off span xs = take (nat span) (drop (nat off) xs)"

definition Slice :: "Slice list \<Rightarrow> Dense \<Rightarrow> error + Dense" where
  "Slice slices t =
     (let n = length (shp t) in
      if slices \<noteq> [] \<and> length slices \<noteq> n then Inl dimMismatch
      else
        let sl = (if slices = [] then replicate n None else slices);
            ds = map (\<lambda>(x, sz). sliceDim x sz) (zip sl (shp t));
            a = ap t;
            newAP = \<lparr>shape = Some (kept ds (map (\<lambda>(s, l, k). l) ds)),
                     strides = kept ds (strides a),
                     maskStrides = kept ds (maskStrides a)\<rparr>
        in Inr \<lparr>ap = newAP,
                v = map_option (window (viewOffset ds (strides a)) (viewSpan ds (strides a))) (v t),
                dt = dt t, old = None, transposeWith = [], viewOf = Some 0,
                mask = (if IsMasked t
                        then window (viewOffset ds (maskStrides a)) (viewSpan ds (maskStrides a)) (mask t)
                        else mask t)\<rparr>)"

text \<open>
  Modelled from the spec: \<open>FlatIterator\<close> is not in the sources at hand. It produces the
  logical coordinates of a shape in row-major order, one per call of \<open>Next\<close>, and
  \<open>Coord\<close> gives the coordinate of the element produced.
\<close>

fun coords :: "int list \<Rightarrow> int list list" where
  "coords [] = [[]]"
| "coords (n # ns) = concat (map (\<lambda>i. map ((#) (int i)) (coords ns)) [0..<nat n])"

text \<open>
  Modelled from the spec: \<open>ltoi\<close>, \<open>SetAt\<close> and \<open>At\<close> are not in the sources at hand. The
  offset of a logical coordinate \<open>c\<close> is the sum of \<open>c[i] * strides[i]\<close>; the number of
  indices must be the dimensionality and each index lies in its dimension. \<open>Set\<close>
  stores a value of the tensor's element type; asserting another type panics.
\<close>

fun offsetOf :: "int list \<Rightarrow> int list \<Rightarrow> int" where
  "offsetOf (c # cs) (st # sts) = c * st + offsetOf cs sts"
| "offsetOf _ _ = 0"

definition inShape :: "int list \<Rightarrow> int list \<Rightarrow> bool" where
  "inShape cs s = (length cs = length s \<and> (\<forall>(c, n) \<in> set (zip cs s). 0 \<le> c \<and> c < n))"

definition ltoi :: "Dense \<Rightarrow> int list \<Rightarrow> error + int" where
  "ltoi t cs =
     (if int (length cs) \<noteq> Dims t then Inl dimMismatch
      else if \<not> inShape cs (shp t) then Inl dimMismatch
      else Inr (offsetOf cs (strides (ap t))))"

definition hasType :: "Dtype \<Rightarrow> scalar \<Rightarrow> bool" where
  "hasType d x = (case x of B b \<Rightarrow> d = Bool_t | I i \<Rightarrow> d = Int_t)"

definition SetAt :: "scalar \<Rightarrow> int list \<Rightarrow> Dense \<Rightarrow> panic + (error option \<times> Dense)" where
  "SetAt x cs t =
     (case ltoi t cs of
        Inl e \<Rightarrow> Inr (Some e, t)
      | Inr at \<Rightarrow>
          (if \<not> hasType (dt t) x then Inl TypeAssertion
           else case v t of
                  None \<Rightarrow> Inl IndexOutOfRange
                | Some xs \<Rightarrow>
                    if 0 \<le> at \<and> at < int (length xs)
                    then Inr (None, t\<lparr>v := Some (xs[nat at := x])\<rparr>)
                    else Inl IndexOutOfRange))"

definition At :: "Dense \<Rightarrow> int list \<Rightarrow> scalar option" where
  "At t cs =
     (case ltoi t cs of
        Inl e \<Rightarrow> None
      | Inr at \<Rightarrow>
          (case v t of
             None \<Rightarrow> None
           | Some xs \<Rightarrow> if 0 \<le> at \<and> at < int (length xs) then Some (xs ! nat at) else None))"

section \<open>Mask-aware iteration\<close>

text \<open>Go's \<open>m[i]\<close>: an index outside the slice panics.\<close>

definition index :: "'a list \<Rightarrow> int \<Rightarrow> panic + 'a" where
  "index xs i = (if 0 \<le> i \<and> i < int (length xs) then Inr (xs ! nat i) else Inl IndexOutOfRange)"

text \<open>
  Modelled from the spec: \<open>MultIterator\<close> is not in the sources at hand. It walks the
  elements of the flattened tensor in row-major order; each element has its flat
  index and its mask-buffer index, the sum of \<open>c[i] * maskStrides[i]\<close> over its
  coordinate \<open>c\<close>. \<open>todo\<close> holds the elements still to come, as (flat index, mask
  index). \<open>Next\<close> produces the next element, \<open>-1\<close> and an error once exhausted.
  \<open>NextValid\<close> advances until the element at the current mask index is unmasked
  and returns its flat index, \<open>NextInvalid\<close> likewise for a masked element; both
  return \<open>-1\<close> and the error when none remains. With no mask buffer every element is
  valid. \<open>SetReverse\<close>, called before the first advance, makes the traversal start
  from the end. \<open>LastMaskIndex\<close> is the mask-buffer index last computed.
\<close>

record MultIterator =
  todo :: "(int \<times> int) list"
  imask :: "bool list"
  lastMaskIndex :: int

definition MultIteratorFromDense :: "Dense \<Rightarrow> MultIterator" where
  "MultIteratorFromDense t =
     (let cs = coords (shp t)
      in \<lparr>todo = zip (map int [0..<length cs]) (map (\<lambda>c. offsetOf c (maskStrides (ap t))) cs),
          imask = mask t, lastMaskIndex = 0\<rparr>)"

definition SetReverse :: "MultIterator \<Rightarrow> MultIterator" where
  "SetReverse it = it\<lparr>todo := rev (todo it)\<rparr>"

definition LastMaskIndex :: "MultIterator \<Rightarrow> int \<Rightarrow> int" where
  "LastMaskIndex it d = lastMaskIndex it"

definition it_Next :: "MultIterator \<Rightarrow> (int \<times> error option) \<times> MultIterator" where
  "it_Next it =
     (case todo it of
        [] \<Rightarrow> ((- 1, Some noopError), it)
      | (i, mi) # r \<Rightarrow> ((i, None), it\<lparr>todo := r, lastMaskIndex := mi\<rparr>))"

definition maskedAt :: "bool list \<Rightarrow> int \<Rightarrow> panic + bool" where
  "maskedAt m mi = (if m = [] then Inr False else index m mi)"

fun seek :: "bool \<Rightarrow> bool list \<Rightarrow> (int \<times> int) list \<Rightarrow> int
               \<Rightarrow> panic + ((int \<times> error option) \<times> (int \<times> int) list \<times> int)" where
  "seek want m [] lst = Inr ((- 1, Some noopError), [], lst)"
| "seek want m ((i, mi) # r) lst =
     (case maskedAt m mi of
        Inl p \<Rightarrow> Inl p
      | Inr b \<Rightarrow> if b = want then Inr ((i, None), r, mi) else seek want m r mi)"

definition it_seek :: "bool \<Rightarrow> MultIterator \<Rightarrow> panic + ((int \<times> error option) \<times> MultIterator)" where
  "it_seek want it =
     (case seek want (imask it) (todo it) (lastMaskIndex it) of
        Inl p \<Rightarrow> Inl p
      | Inr (res, r, lst) \<Rightarrow> Inr (res, it\<lparr>todo := r, lastMaskIndex := lst\<rparr>))"

definition NextValid :: "MultIterator \<Rightarrow> panic + ((int \<times> error option) \<times> MultIterator)" where
  "NextValid it = it_seek False it"

definition NextInvalid :: "MultIterator \<Rightarrow> panic + ((int \<times> error option) \<times> MultIterator)" where
  "NextInvalid it = it_seek True it"

text \<open>An advance that finds an element consumes it: the loops over an iterator end.\<close>

lemma seek_shorter:
  "seek want m xs lst = Inr ((i, None), r, lst') \<Longrightarrow> length r < length xs"
proof (induction xs arbitrary: lst)
  case Nil
  then show ?case by simp
next
  case (Cons x xs)
  obtain j mi where x: "x = (j, mi)" by (cases x)
  show ?case
  proof (cases "maskedAt m mi")
    case (Inl p)
    with Cons.prems x show ?thesis by simp
  next
    case (Inr b)
    show ?thesis
    proof (cases "b = want")
      case True
      with Cons.prems x Inr show ?thesis by simp
    next
      case False
      with Cons.prems x Inr have "seek want m xs mi = Inr ((i, None), r, lst')" by simp
      from Cons.IH [OF this] show ?thesis by simp
    qed
  qed
qed

lemma it_seek_shorter:
  "it_seek want it = Inr ((i, None), it') \<Longrightarrow> length (todo it') < length (todo it)"
  by (auto simp: it_seek_def split: sum.splits prod.splits dest: seek_shorter)

lemma it_Next_shorter:
  "it_Next it = ((i, None), it') \<Longrightarrow> length (todo it') < length (todo it)"
  by (auto simp: it_Next_def split: list.splits prod.splits)

section \<open>dense\_mask\_inspection.go\<close>

subsection \<open>The reduction functions\<close>

text \<open>
  The contiguous scans \<open>for i := 0; i < t.MaskSize(); i++\<close> over \<open>m[i]\<close>, and the loops
  over a \<open>MultIterator\<close>. The type switch of each function has one case here, the
  \<open>*Dense\<close> of the model.
\<close>

function allScan :: "bool list \<Rightarrow> int \<Rightarrow> int \<Rightarrow> panic + scalar" where
  "allScan m n i =
     (if i < n then
        (case index m i of
           Inl p \<Rightarrow> Inl p
         | Inr b \<Rightarrow> if \<not> b then Inr (B False) else allScan m n (i + 1))
      else Inr (B True))"
  by pat_completeness auto
termination
  by (relation "measure (\<lambda>(m, n, i). nat (n - i))") auto

function allLoop :: "bool list \<Rightarrow> MultIterator \<Rightarrow> panic + scalar" where
  "allLoop m it =
     (case it_Next it of
        ((i, Some err), it') \<Rightarrow> Inr (B True)
      | ((i, None), it') \<Rightarrow>
          (case index m (LastMaskIndex it' 0) of
             Inl p \<Rightarrow> Inl p
           | Inr b \<Rightarrow> if \<not> b then Inr (B False) else allLoop m it'))"
  by pat_completeness auto
termination
  by (relation "measure (\<lambda>(m, it). length (todo it))") (auto dest: it_Next_shorter [OF sym])

definition doMaskAll :: "Dense \<Rightarrow> panic + scalar" where
  "doMaskAll t =
     (if \<not> IsMasked t then Inr (B False)
      else let m = mask t in
        if MaskSize t = Size t then allScan m (MaskSize t) 0
        else allLoop m (MultIteratorFromDense t))"

function anyScan :: "bool list \<Rightarrow> int \<Rightarrow> int \<Rightarrow> panic + scalar" where
  "anyScan m n i =
     (if i < n then
        (case index m i of
           Inl p \<Rightarrow> Inl p
         | Inr b \<Rightarrow> if b then Inr (B True) else anyScan m n (i + 1))
      else Inr (B False))"
  by pat_completeness auto
termination
  by (relation "measure (\<lambda>(m, n, i). nat (n - i))") auto

function anyLoop :: "bool list \<Rightarrow> MultIterator \<Rightarrow> panic + scalar" where
  "anyLoop m it =
     (case NextInvalid it of
        Inl p \<Rightarrow> Inl p
      | Inr ((i, Some err), it') \<Rightarrow> Inr (B False)
      | Inr ((i, None), it') \<Rightarrow>
          (case index m (LastMaskIndex it' 0) of
             Inl p \<Rightarrow> Inl p
           | Inr b \<Rightarrow> if b then Inr (B True) else anyLoop m it'))"
  by pat_completeness auto
termination
  by (relation "measure (\<lambda>(m, it). length (todo it))")
     (auto simp: NextInvalid_def dest: it_seek_shorter)

definition doMaskAny :: "Dense \<Rightarrow> panic + scalar" where
  "doMaskAny t =
     (if \<not> IsMasked t then Inr (B False)
      else let m = mask t in
        if MaskSize t = Size t then anyScan m (MaskSize t) 0
        else anyLoop m (MultIteratorFromDense t))"

function ctScan :: "bool list \<Rightarrow> int \<Rightarrow> int \<Rightarrow> int \<Rightarrow> panic + scalar" where
  "ctScan m n i count =
     (if i < n then
        (case index m i of
           Inl p \<Rightarrow> Inl p
         | Inr b \<Rightarrow> ctScan m n (i + 1) (if b then count + 1 else count))
      else Inr (I count))"
  by pat_completeness auto
termination
  by (relation "measure (\<lambda>(m, n, i, count). nat (n - i))") auto

function ctLoop :: "MultIterator \<Rightarrow> int \<Rightarrow> panic + scalar" where
  "ctLoop it j =
     (case NextInvalid it of
        Inl p \<Rightarrow> Inl p
      | Inr ((i, Some err), it') \<Rightarrow> Inr (I j)
      | Inr ((i, None), it') \<Rightarrow> ctLoop it' (j + 1))"
  by pat_completeness auto
termination
  by (relation "measure (\<lambda>(it, j). length (todo it))")
     (auto simp: NextInvalid_def dest: it_seek_shorter)

definition doMaskCt :: "Dense \<Rightarrow> panic + scalar" where
  "doMaskCt t =
     (if \<not> IsMasked t then Inr (I 0)
      else if MaskSize t = Size t then ctScan (mask t) (MaskSize t) 0 0
      else ctLoop (MultIteratorFromDense t) 0)"

text \<open>\<open>doMaskCt(t).(int)\<close>: the assertion panics on a value that is no int.\<close>

definition doNonMaskCt :: "Dense \<Rightarrow> panic + scalar" where
  "doNonMaskCt t =
     (if \<not> IsMasked t then Inr (I (Size t))
      else case doMaskCt t of
             Inl p \<Rightarrow> Inl p
           | Inr (I c) \<Rightarrow> Inr (I (Size t - c))
           | Inr (B b) \<Rightarrow> Inl TypeAssertion)"

subsection \<open>MaskedReduce\<close>

text \<open>
  The inner loop \<open>for d := range slices\<close>: a single-index range from \<open>coord[k]\<close> on
  every dimension but \<open>ax\<close>, \<open>nil\<close> on \<open>ax\<close>. The list argument is the dimensions
  still to fill.
\<close>

fun fillSlices :: "nat \<Rightarrow> int list \<Rightarrow> nat list \<Rightarrow> nat \<Rightarrow> panic + Slice list" where
  "fillSlices ax coord [] k = Inr []"
| "fillSlices ax coord (d # ds) k =
     (if d \<noteq> ax then
        (case index coord (int k) of
           Inl p \<Rightarrow> Inl p
         | Inr c \<Rightarrow>
             (case fillSlices ax coord ds (k + 1) of
                Inl p \<Rightarrow> Inl p
              | Inr sl \<Rightarrow> Inr (Some (makeRS c (c + 1)) # sl)))
      else
        (case fillSlices ax coord ds k of
           Inl p \<Rightarrow> Inl p
         | Inr sl \<Rightarrow> Inr (None # sl)))"

text \<open>
  The loop over the coordinates of \<open>retVal\<close>. The error of \<open>t.Slice\<close> is dropped by
  the code and the type assertion on the \<open>nil\<close> result panics; the error of \<open>SetAt\<close>
  is dropped too.
\<close>

fun reduceLoop :: "Dense \<Rightarrow> (Dense \<Rightarrow> panic + scalar) \<Rightarrow> nat \<Rightarrow> int list list \<Rightarrow> Dense
                    \<Rightarrow> panic + Dense" where
  "reduceLoop t fn ax [] retVal = Inr retVal"
| "reduceLoop t fn ax (coord # rest) retVal =
     (case fillSlices ax coord [0..<nat (Dims t)] 0 of
        Inl p \<Rightarrow> Inl p
      | Inr slices \<Rightarrow>
          (case Slice slices t of
             Inl e \<Rightarrow> Inl NilTypeAssertion
           | Inr ts \<Rightarrow>
               (case fn ts of
                  Inl p \<Rightarrow> Inl p
                | Inr x \<Rightarrow>
                    (case SetAt x coord retVal of
                       Inl p \<Rightarrow> Inl p
                     | Inr (err, retVal') \<Rightarrow> reduceLoop t fn ax rest retVal'))))"

text \<open>
  \<open>MaskedReduce\<close>. The value \<open>-1\<close> is the int \<open>I (- 1)\<close>, of the same kind as a count.
  A negative \<open>ax\<close> passes the only check, \<open>ax >= t.Dims()\<close>, and \<open>slices[ax]\<close> panics.
  The assignment \<open>slices[ax] = makeRS(0, t.shape[ax])\<close> before the loop is overwritten
  by the loop's \<open>nil\<close> before any use.
\<close>

definition MaskedReduce :: "Dense \<Rightarrow> Dtype \<Rightarrow> (Dense \<Rightarrow> panic + scalar) \<Rightarrow> int list
                              \<Rightarrow> panic + iface" where
  "MaskedReduce t retType fn axis =
     (if length axis = 0 \<or> IsVector t then
        (case fn t of Inl p \<Rightarrow> Inl p | Inr x \<Rightarrow> Inr (Sc x))
      else
        let ax = axis ! 0 in
        if ax \<ge> Dims t then Inr (Sc (I (- 1)))
        else if ax < 0 then Inl IndexOutOfRange
        else
          let slices = (replicate (nat (Dims t)) None)[nat ax := Some (makeRS 0 0)] in
          (case Slice slices t of
             Inl e \<Rightarrow> Inl NilTypeAssertion
           | Inr ts \<Rightarrow>
               (case NewDense retType (shp ts) of
                  Inl p \<Rightarrow> Inl p
                | Inr retVal \<Rightarrow>
                    (case reduceLoop t fn (nat ax) (coords (shp retVal)) retVal of
                       Inl p \<Rightarrow> Inl p
                     | Inr r \<Rightarrow> Inr (Tn r)))))"

definition MaskedAny :: "Dense \<Rightarrow> int list \<Rightarrow> panic + iface" where
  "MaskedAny t axis = MaskedReduce t Bool_t doMaskAny axis"

definition MaskedAll :: "Dense \<Rightarrow> int list \<Rightarrow> panic + iface" where
  "MaskedAll t axis = MaskedReduce t Bool_t doMaskAll axis"

definition MaskedCount :: "Dense \<Rightarrow> int list \<Rightarrow> panic + iface" where
  "MaskedCount t axis = MaskedReduce t Int_t doMaskCt axis"

definition NonMaskedCount :: "Dense \<Rightarrow> int list \<Rightarrow> panic + iface" where
  "NonMaskedCount t axis = MaskedReduce t Int_t doNonMaskCt axis"

subsection \<open>Finding masked data\<close>

text \<open>
  The loop \<open>for errV == nil && errI == nil\<close> of \<open>FlatNotMaskedContiguous\<close> (first the
  valid, then the invalid element) and of \<open>FlatMaskedContiguous\<close> (the other way
  round): \<open>first\<close> is the validity sought for the start of a range. Both errors are
  \<open>nil\<close> before the first round.
\<close>

function contiguousLoop :: "bool \<Rightarrow> int \<Rightarrow> MultIterator \<Rightarrow> rs list \<Rightarrow> panic + rs list" where
  "contiguousLoop first sz it sliceList =
     (case it_seek first it of
        Inl p \<Rightarrow> Inl p
      | Inr ((start, errV), it1) \<Rightarrow>
          (case it_seek (\<not> first) it1 of
             Inl p \<Rightarrow> Inl p
           | Inr ((en, errI), it2) \<Rightarrow>
               if start < 0 \<and> en < 0 then Inr sliceList
               else
                 let en' = (if en < 0 then sz else en);
                     sliceList' = sliceList @ [makeRS start en']
                 in if errV = None \<and> errI = None then contiguousLoop first sz it2 sliceList'
                    else Inr sliceList'))"
  by pat_completeness auto
termination
  by (relation "measure (\<lambda>(first, sz, it, sliceList). length (todo it))")
     (auto dest!: it_seek_shorter)

definition FlatNotMaskedContiguous :: "Dense \<Rightarrow> panic + rs list" where
  "FlatNotMaskedContiguous t = contiguousLoop False (Size t) (MultIteratorFromDense t) []"

definition FlatMaskedContiguous :: "Dense \<Rightarrow> panic + rs list" where
  "FlatMaskedContiguous t = contiguousLoop True (Size t) (MultIteratorFromDense t) []"

definition FlatNotMaskedEdges :: "Dense \<Rightarrow> panic + (int \<times> int)" where
  "FlatNotMaskedEdges t =
     (if \<not> IsMasked t then Inr (0, Size t - 1)
      else
        let itF = MultIteratorFromDense t;
            itB = SetReverse (MultIteratorFromDense t)
        in case NextValid itF of
             Inl p \<Rightarrow> Inl p
           | Inr ((start, e1), itF') \<Rightarrow>
               (case NextValid itB of
                  Inl p \<Rightarrow> Inl p
                | Inr ((en, e2), itB') \<Rightarrow> Inr (start, en)))"

definition FlatMaskedEdges :: "Dense \<Rightarrow> panic + (int \<times> int)" where
  "FlatMaskedEdges t =
     (if \<not> IsMasked t then Inr (0, Size t - 1)
      else
        let itF = MultIteratorFromDense t;
            itB = SetReverse (MultIteratorFromDense t)
        in case NextInvalid itF of
             Inl p \<Rightarrow> Inl p
           | Inr ((start, e1), itF') \<Rightarrow>
               (case NextInvalid itB of
                  Inl p \<Rightarrow> Inl p
                | Inr ((en, e2), itB') \<Rightarrow> Inr (start, en)))"

section \<open>The tensors of the repository's test\<close>

text \<open>
  A tensor as dense\_mask\_inspection\_test.go builds it, by
  \<open>New(Of(Bool), WithShape(...), WithMaskStrides(...))\<close> and assignments to
  \<open>T.mask\<close>: row-major strides, the mask strides and the mask given, no view.
\<close>

definition testTensor :: "int list \<Rightarrow> int list \<Rightarrow> bool list \<Rightarrow> Dense" where
  "testTensor s ms m =
     \<lparr>ap = \<lparr>shape = Some s, strides = calcStrides s, maskStrides = ms\<rparr>,
      v = Some (replicate (nat (TotalSize s)) (B False)), dt = Bool_t, old = None,
      transposeWith = [], viewOf = None, mask = m\<rparr>"

text \<open>The "vector case": shape \<open>(1, 12)\<close>, every even index masked.\<close>

definition vectorCase :: Dense where
  "vectorCase = testTensor [1, 12] [12, 1]
     [True, False, True, False, True, False, True, False, True, False, True, False]"

text \<open>The "contiguous mask case": shape \<open>(2, 3, 2)\<close>, \<open>mask[0]\<close> and \<open>mask[4]\<close> set.\<close>

definition contiguousCase :: Dense where
  "contiguousCase = testTensor [2, 3, 2] [6, 2, 1]
     [True, False, False, False, True, False, False, False, False, False, False, False]"

text \<open>"Non-contiguous mask case 4": the mask broadcasts over the first two dimensions.\<close>

definition broadcastCase :: Dense where
  "broadcastCase = testTensor [2, 3, 2] [0, 0, 1] [True, False]"

section \<open>Properties\<close>

lemma shp_testTensor [simp]: "shp (testTensor s ms m) = s"
  by (simp add: testTensor_def shp_def)

subsection \<open>The axis arguments of MaskedReduce\<close>

text \<open>
  C4. The claim: on the axis-wise path every axis outside \<open>0 <= axis < rank\<close>, the
  negative ones included, makes \<open>MaskedReduce\<close> return \<open>-1\<close>. The code checks
  \<open>ax >= t.Dims()\<close> only: on the \<open>(2, 3, 2)\<close> tensor of the test the axis \<open>-1\<close> reaches
  \<open>slices[ax]\<close> and the call panics with an index out of range, whatever the
  reduction function.
\<close>

theorem MaskedReduce_negative_axis_panics:
  "MaskedReduce contiguousCase retType fn [- 1] = Inl IndexOutOfRange"
  by (simp add: MaskedReduce_def contiguousCase_def IsVector_def Dims_def)

text \<open>The half of the claim the code keeps: an axis at or beyond the rank gives \<open>-1\<close>.\<close>

lemma MaskedReduce_axis_beyond_rank:
  "\<not> IsVector t \<Longrightarrow> Dims t \<le> ax \<Longrightarrow> MaskedReduce t retType fn (ax # rest) = Inr (Sc (I (- 1)))"
  by (simp add: MaskedReduce_def)

text \<open>
  C9. With two or more axis arguments only the first is used: the call equals the
  call with the first axis alone, for \<open>MaskedReduce\<close> and for the four methods.
\<close>

theorem first_axis_only:
  "MaskedReduce t retType fn (a # b # rest) = MaskedReduce t retType fn [a]
   \<and> MaskedAny t (a # b # rest) = MaskedAny t [a]
   \<and> MaskedAll t (a # b # rest) = MaskedAll t [a]
   \<and> MaskedCount t (a # b # rest) = MaskedCount t [a]
   \<and> NonMaskedCount t (a # b # rest) = NonMaskedCount t [a]"
  by (simp add: MaskedReduce_def MaskedAny_def MaskedAll_def MaskedCount_def NonMaskedCount_def)

end
